theory Spec2Isabelle
  imports Main "HOL-Library.Word" "HOL-Library.Signed_Division"
begin

section \<open>go-upload: resumable upload server (main.go)\<close>

text \<open>
  A shallow embedding of the request handlers of \<^verbatim>\<open>main.go\<close> and of the standard-library
  functions they call. Go strings are byte sequences and are modelled as \<open>string\<close>
  (a list of 8-bit characters); \<^verbatim>\<open>int64\<close> is \<open>64 word\<close>, read with \<open>sint\<close>.
  The \<^verbatim>\<open>path/filepath\<close> functions are modelled as on a Unix build: the separator is
  \<open>/\<close> and no path has a volume name.
\<close>

subsection \<open>Package strings\<close>

definition HasPrefix :: "string \<Rightarrow> string \<Rightarrow> bool" where
  "HasPrefix s pre = (take (length pre) s = pre)"

definition TrimPrefix :: "string \<Rightarrow> string \<Rightarrow> string" where
  "TrimPrefix s pre = (if HasPrefix s pre then drop (length pre) s else s)"

text \<open>\<^verbatim>\<open>strings.ReplaceAll(p, "\\", "/")\<close>: every backslash byte becomes a slash.\<close>

definition backslashToSlash :: "string \<Rightarrow> string" where
  "backslashToSlash p = map (\<lambda>c. if c = CHR 0x5C then CHR ''/'' else c) p"

text \<open>
  \<^verbatim>\<open>strings.TrimSpace\<close> removes leading and trailing white space as defined by Unicode.
  On the UTF-8 bytes of a Go string these are the six ASCII characters tab, line feed,
  vertical tab, form feed, carriage return and space, and the encodings of U+0085,
  U+00A0, U+1680, U+2000 to U+200A, U+2028, U+2029, U+202F, U+205F and U+3000.
\<close>

definition spaceSeqs :: "string list" where
  "spaceSeqs =
    [[CHR 0x09], [CHR 0x0A], [CHR 0x0B], [CHR 0x0C], [CHR 0x0D], [CHR 0x20],
     [CHR 0xC2, CHR 0x85], [CHR 0xC2, CHR 0xA0],
     [CHR 0xE1, CHR 0x9A, CHR 0x80],
     [CHR 0xE2, CHR 0x80, CHR 0x80], [CHR 0xE2, CHR 0x80, CHR 0x81],
     [CHR 0xE2, CHR 0x80, CHR 0x82], [CHR 0xE2, CHR 0x80, CHR 0x83],
     [CHR 0xE2, CHR 0x80, CHR 0x84], [CHR 0xE2, CHR 0x80, CHR 0x85],
     [CHR 0xE2, CHR 0x80, CHR 0x86], [CHR 0xE2, CHR 0x80, CHR 0x87],
     [CHR 0xE2, CHR 0x80, CHR 0x88], [CHR 0xE2, CHR 0x80, CHR 0x89],
     [CHR 0xE2, CHR 0x80, CHR 0x8A],
     [CHR 0xE2, CHR 0x80, CHR 0xA8], [CHR 0xE2, CHR 0x80, CHR 0xA9],
     [CHR 0xE2, CHR 0x80, CHR 0xAF], [CHR 0xE2, CHR 0x81, CHR 0x9F],
     [CHR 0xE3, CHR 0x80, CHR 0x80]]"

text \<open>The length of the white-space rune a string starts with (0 when there is none).\<close>

definition spaceLen :: "string list \<Rightarrow> string \<Rightarrow> nat" where
  "spaceLen seqs s = (case find (\<lambda>w. HasPrefix s w) seqs of None \<Rightarrow> 0 | Some w \<Rightarrow> length w)"

function trimLeftSeqs :: "string list \<Rightarrow> string \<Rightarrow> string" where
  "trimLeftSeqs seqs s =
     (if s = [] \<or> spaceLen seqs s = 0 then s else trimLeftSeqs seqs (drop (spaceLen seqs s) s))"
  by pat_completeness auto
termination
  by (relation "measure (\<lambda>(seqs, s). length s)") auto

definition TrimSpace :: "string \<Rightarrow> string" where
  "TrimSpace s = rev (trimLeftSeqs (map rev spaceSeqs) (rev (trimLeftSeqs spaceSeqs s)))"

text \<open>\<^verbatim>\<open>strings.Count(s, "/")\<close> and \<^verbatim>\<open>strings.Join(elems, "/")\<close>.\<close>

definition countSep :: "string \<Rightarrow> nat" where
  "countSep s = length (filter (\<lambda>c. c = CHR ''/'') s)"

fun joinSep :: "string list \<Rightarrow> string" where
  "joinSep [] = []"
| "joinSep [e] = e"
| "joinSep (e # es) = e @ CHR ''/'' # joinSep es"

subsection \<open>Package path/filepath (Unix)\<close>

text \<open>
  The elements of a path are the maximal separator-free pieces between its slashes;
  \<open>elements\<close> lists those that are not empty. The main loop of \<^verbatim>\<open>filepath.Clean\<close> skips a
  separator with \<^verbatim>\<open>r++\<close> and otherwise consumes one whole element, so it is a loop over
  \<open>elements path\<close>.
\<close>

fun splitSep :: "string \<Rightarrow> string list" where
  "splitSep [] = [[]]"
| "splitSep (c # cs) =
     (if c = CHR ''/'' then [] # splitSep cs
      else (case splitSep cs of [] \<Rightarrow> [[c]] | e # es \<Rightarrow> (c # e) # es))"

definition elements :: "string \<Rightarrow> string list" where
  "elements p = filter (\<lambda>e. e \<noteq> []) (splitSep p)"

text \<open>
  The loop of \<^verbatim>\<open>Clean\<close>. The output buffer is kept as the list \<open>out\<close> of elements written
  so far (\<^verbatim>\<open>out.w\<close> is its extent) and \<open>dotdot\<close> counts the leading \<open>..\<close> elements that
  must stay: \<^verbatim>\<open>out.w > dotdot\<close> holds exactly when \<open>out\<close> is longer than that prefix.
  \<^item> a \<open>.\<close> element is dropped;
  \<^item> a \<open>..\<close> element removes the last element when it can backtrack, is appended when
    the path is not rooted, and is dropped when the path is rooted;
  \<^item> any other element is appended.
\<close>

fun cleanLoop :: "bool \<Rightarrow> string list \<Rightarrow> string list \<Rightarrow> nat \<Rightarrow> string list" where
  "cleanLoop rooted [] out dotdot = out"
| "cleanLoop rooted (e # es) out dotdot =
     (if e = ''.'' then cleanLoop rooted es out dotdot
      else if e = ''..'' then
        (if length out > dotdot then cleanLoop rooted es (butlast out) dotdot
         else if \<not> rooted then cleanLoop rooted es (out @ [''..'']) (length out + 1)
         else cleanLoop rooted es out dotdot)
      else cleanLoop rooted es (out @ [e]) dotdot)"

definition Clean :: "string \<Rightarrow> string" where
  "Clean path =
     (if path = [] then ''.''
      else let rooted = (hd path = CHR ''/'');
               out = cleanLoop rooted (elements path) [] 0
           in if rooted then CHR ''/'' # joinSep out
              else if out = [] then ''.'' else joinSep out)"

text \<open>
  \<^verbatim>\<open>filepath.Join\<close>: leading empty arguments are skipped, the rest is joined with
  slashes and cleaned; the result is empty when every argument is.
\<close>

fun Join :: "string list \<Rightarrow> string" where
  "Join [] = []"
| "Join (e # es) = (if e = [] then Join es else Clean (joinSep (e # es)))"

definition IsAbs :: "string \<Rightarrow> bool" where
  "IsAbs path = HasPrefix path ''/''"

text \<open>
  \<^verbatim>\<open>filepath.Abs\<close>: an absolute path is cleaned; a relative one is joined to the working
  directory, and the call fails when that cannot be determined (\<open>wd = None\<close>).
\<close>

datatype path_error = EmptyPath | InvalidPath | PathEscapesRoot | GetwdError | RelError

definition Abs :: "string option \<Rightarrow> string \<Rightarrow> path_error + string" where
  "Abs wd path =
     (if IsAbs path then Inr (Clean path)
      else (case wd of None \<Rightarrow> Inl GetwdError | Some d \<Rightarrow> Inr (Join [d, path])))"

text \<open>
  \<^verbatim>\<open>filepath.Base\<close>: the last element of the path, after removing trailing slashes;
  \<open>.\<close> for the empty path and \<open>/\<close> for a path of slashes only.
\<close>

definition stripTrailingSep :: "string \<Rightarrow> string" where
  "stripTrailingSep path = rev (dropWhile (\<lambda>c. c = CHR ''/'') (rev path))"

definition Base :: "string \<Rightarrow> string" where
  "Base path =
     (if path = [] then ''.''
      else let p = stripTrailingSep path;
               e = rev (takeWhile (\<lambda>c. c \<noteq> CHR ''/'') (rev p))
           in if e = [] then ''/'' else e)"

text \<open>
  \<^verbatim>\<open>filepath.Rel\<close>. \<open>relLoop\<close> is the loop that positions \<^verbatim>\<open>base[b0:bi]\<close> and
  \<^verbatim>\<open>targ[t0:ti]\<close> at the first differing elements; its arguments are \<^verbatim>\<open>base[b0:]\<close> and
  \<^verbatim>\<open>targ[t0:]\<close>, and it returns \<^verbatim>\<open>base[b0:bi]\<close>, \<^verbatim>\<open>base[b0:]\<close> and \<^verbatim>\<open>targ[t0:]\<close> at exit.
\<close>

function relLoop :: "string \<Rightarrow> string \<Rightarrow> string \<times> string \<times> string" where
  "relLoop b t =
     (if b \<noteq> [] \<and> t \<noteq> [] then
        (let be = takeWhile (\<lambda>c. c \<noteq> CHR ''/'') b;
             te = takeWhile (\<lambda>c. c \<noteq> CHR ''/'') t
         in if te \<noteq> be then (be, b, t)
            else relLoop (drop (Suc (length be)) b) (drop (Suc (length te)) t))
      else ([], b, t))"
  by pat_completeness auto
termination
  by (relation "measure (\<lambda>(b, t). length b)") auto

definition Rel :: "string \<Rightarrow> string \<Rightarrow> path_error + string" where
  "Rel basepath targpath =
     (let base = Clean basepath; targ = Clean targpath in
      if targ = base then Inr ''.''
      else let base = (if base = ''.'' then [] else base);
               baseSlashed = (base \<noteq> [] \<and> hd base = CHR ''/'');
               targSlashed = (targ \<noteq> [] \<and> hd targ = CHR ''/'')
           in if baseSlashed \<noteq> targSlashed then Inl RelError
              else (case relLoop base targ of (cur, brest, trest) \<Rightarrow>
                if cur = ''..'' then Inl RelError
                else if brest \<noteq> [] then
                  Inr (''..'' @ concat (replicate (countSep brest) ''/..'')
                       @ (if trest \<noteq> [] then CHR ''/'' # trest else []))
                else Inr trest))"

subsection \<open>Path resolver\<close>

definition sanitizeRelPath :: "string \<Rightarrow> path_error + string" where
  "sanitizeRelPath p0 =
     (let p = backslashToSlash p0;
          p = TrimSpace p;
          p = TrimPrefix p ''/'';
          p = TrimPrefix p ''./''
      in if p = [] then Inl EmptyPath
         else let clean = Clean p in
           if clean = ''.'' \<or> clean = ''..'' \<or> HasPrefix clean ''../'' then Inl InvalidPath
           else Inr clean)"

definition isSubpath :: "string \<Rightarrow> string \<Rightarrow> bool" where
  "isSubpath childAbs rootAbs =
     (case Rel (Clean rootAbs) (Clean childAbs) of
        Inl err \<Rightarrow> False
      | Inr rel \<Rightarrow> rel \<noteq> ''..'' \<and> \<not> HasPrefix rel ''../'')"


subsection \<open>Integers and package strconv\<close>

type_synonym int64 = "64 word"

definition maxInt64 :: "int64 \<Rightarrow> int64 \<Rightarrow> int64" where
  "maxInt64 a b = (if sint a > sint b then a else b)"

text \<open>Go's \<^verbatim>\<open>/\<close> on \<^verbatim>\<open>int64\<close> truncates towards zero.\<close>

definition quoInt64 :: "int64 \<Rightarrow> int64 \<Rightarrow> int64" where
  "quoInt64 a b = word_of_int (sint a sdiv sint b)"

text \<open>
  \<^verbatim>\<open>strconv.ParseInt(s, 10, 64)\<close>: an optional sign followed by at least one decimal
  digit and nothing else; \<open>None\<close> stands for a syntax error or a value outside
  \<^verbatim>\<open>int64\<close>.
\<close>

definition isDigit :: "char \<Rightarrow> bool" where
  "isDigit c = (48 \<le> (of_char c :: nat) \<and> (of_char c :: nat) \<le> 57)"

fun digitsVal :: "nat \<Rightarrow> string \<Rightarrow> nat" where
  "digitsVal acc [] = acc"
| "digitsVal acc (c # cs) = digitsVal (acc * 10 + (of_char c - 48)) cs"

definition ParseInt :: "string \<Rightarrow> int64 option" where
  "ParseInt s0 =
     (if s0 = [] then None
      else let neg = (hd s0 = CHR ''-'');
               s = (if hd s0 = CHR ''+'' \<or> hd s0 = CHR ''-'' then tl s0 else s0)
           in if s = [] \<or> \<not> list_all isDigit s then None
              else let un = digitsVal 0 s in
                if \<not> neg \<and> un \<ge> 2 ^ 63 then None
                else if neg \<and> un > 2 ^ 63 then None
                else Some (if neg then - word_of_nat un else word_of_nat un))"

text \<open>Decimal rendering of an integer, as \<^verbatim>\<open>%d\<close> in \<^verbatim>\<open>fmt.Sprintf\<close>.\<close>

function showNat :: "nat \<Rightarrow> string" where
  "showNat n =
     (if n < 10 then [char_of (48 + n)] else showNat (n div 10) @ [char_of (48 + n mod 10)])"
  by pat_completeness auto
termination
  by (relation "measure id") auto

definition showInt64 :: "int64 \<Rightarrow> string" where
  "showInt64 x = (if sint x < 0 then CHR ''-'' # showNat (nat (- sint x)) else showNat (nat (sint x)))"

text \<open>\<^verbatim>\<open>hex.EncodeToString\<close>.\<close>

definition hexDigit :: "nat \<Rightarrow> char" where
  "hexDigit d = (if d < 10 then char_of (48 + d) else char_of (87 + d))"

definition hexEncode :: "string \<Rightarrow> string" where
  "hexEncode bs =
     concat (map (\<lambda>b. [hexDigit ((of_char b :: nat) div 16), hexDigit ((of_char b :: nat) mod 16)]) bs)"


subsection \<open>Configuration, metadata and server state\<close>

record Config =
  Addr :: string
  StaticEnable :: bool
  StaticDir :: string
  RootDir :: string
  StateDir :: string
  MaxChunkBytes :: int64
  MaxFileBytes :: int64

text \<open>
  \<open>CreatedAt\<close> is kept as the RFC 3339 text that the JSON encoding of a \<^verbatim>\<open>time.Time\<close>
  consists of.
\<close>

record UploadMeta =
  UploadID :: string
  CreatedAt :: string
  Filename :: string
  RelPath :: string
  TotalSize :: int64
  ChunkSize :: int64
  UploadedSize :: int64
  Completed :: bool

record Server =
  cfg :: Config
  rootAbs :: string
  stateAbs :: string
  staticOn :: bool
  metaSaveInterval :: int64

text \<open>
  The mutable state: the two \<^verbatim>\<open>sync.Map\<close>s of the server, and one file system, a map
  from absolute paths to the bytes of the regular files. The state directory lies inside
  the root directory, so the metadata files, the part files and the finished files all
  live in this one map.
\<close>

record state =
  muByUpload :: "string set"
  lastSaved :: "string \<rightharpoonup> int64"
  files :: "string \<rightharpoonup> string"

definition emptyState :: state where
  "emptyState = \<lparr>muByUpload = {}, lastSaved = Map.empty, files = Map.empty\<rparr>"

text \<open>
  A restart of the process: \<^verbatim>\<open>newServer\<close> starts with two empty \<^verbatim>\<open>sync.Map\<close>s and finds
  the files as they were left.
\<close>

definition restart :: "state \<Rightarrow> state" where
  "restart st = st\<lparr>muByUpload := {}, lastSaved := Map.empty\<rparr>"

text \<open>
  The package \<^verbatim>\<open>encoding/json\<close>, as far as the handlers use it on \<^verbatim>\<open>UploadMeta\<close>:
  \<open>Marshal\<close> is \<^verbatim>\<open>json.MarshalIndent(meta, "", "  ")\<close> and \<open>Unmarshal\<close> is
  \<^verbatim>\<open>json.Unmarshal(b, &meta)\<close>, \<open>None\<close> when it returns an error. The package is a
  parameter \<open>J\<close> of the model.
\<close>

record json_pkg =
  Marshal :: "UploadMeta \<Rightarrow> string"
  Unmarshal :: "string \<Rightarrow> UploadMeta option"

text \<open>
  What the operating system answers during one call. Each flag makes the call of that
  name fail where the source tests or discards its error:
  \<^item> \<open>load_err\<close>: \<^verbatim>\<open>os.ReadFile\<close> in \<^verbatim>\<open>loadMeta\<close> fails with an error other than
    \<^verbatim>\<open>ErrNotExist\<close>, whether or not a file is there (a name that is too long or contains
    a zero byte, a path through a regular file, a failing device);
  \<^item> \<open>save_answer\<close>: how far \<^verbatim>\<open>saveMeta\<close> gets;
  \<^item> \<open>write_fault = Some k\<close>: the copy into the part file stops with an error after
    \<open>k\<close> bytes;
  \<^item> \<open>remove_part_err\<close>, \<open>remove_meta_err\<close>: the two \<^verbatim>\<open>os.Remove\<close> calls of
    \<^verbatim>\<open>handleCancel\<close>, whose errors the source discards.
\<close>

datatype save_answer = Saved | CreateFailed | WriteFailed nat | RenameFailed

record io_env =
  getwd :: "string option"
  load_err :: bool
  save_answer :: save_answer
  mkdir_err :: bool
  open_err :: bool
  truncate_err :: bool
  write_fault :: "nat option"
  rename_err :: bool
  remove_part_err :: bool
  remove_meta_err :: bool

definition noFault :: io_env where
  "noFault = \<lparr>getwd = Some ''/'', load_err = False, save_answer = Saved, mkdir_err = False,
              open_err = False, truncate_err = False, write_fault = None,
              rename_err = False, remove_part_err = False, remove_meta_err = False\<rparr>"

text \<open>The defaults \<^verbatim>\<open>loadConfig\<close> fills in after reading the file.\<close>

definition loadConfig :: "Config \<Rightarrow> Config" where
  "loadConfig c0 =
     (let c = (if TrimSpace (Addr c0) = [] then c0\<lparr>Addr := ''127.0.0.1:8088''\<rparr> else c0);
          c = (if TrimSpace (StaticDir c) = [] then c\<lparr>StaticDir := ''../web/dist''\<rparr> else c);
          c = (if TrimSpace (RootDir c) = [] then c\<lparr>RootDir := ''../uploads''\<rparr> else c);
          c = (if TrimSpace (StateDir c) = [] then c\<lparr>StateDir := ''.go-upload_state''\<rparr> else c);
          c = (if sint (MaxChunkBytes c) \<le> 0 then c\<lparr>MaxChunkBytes := 128 * 1024 * 1024\<rparr> else c)
      in c)"

datatype start_error = AbsFailed | MkdirFailed

definition newServer :: "io_env \<Rightarrow> Config \<Rightarrow> start_error + Server" where
  "newServer env c =
     (case Abs (getwd env) (RootDir c) of
        Inl e \<Rightarrow> Inl AbsFailed
      | Inr root \<Rightarrow>
          if mkdir_err env then Inl MkdirFailed
          else Inr \<lparr>cfg = c, rootAbs = root, stateAbs = Join [root, StateDir c],
                    staticOn = StaticEnable c,
                    metaSaveInterval = maxInt64 (64 * 1024 * 1024) (quoInt64 (MaxChunkBytes c) 2)\<rparr>)"

definition metaPath :: "Server \<Rightarrow> string \<Rightarrow> string" where
  "metaPath s uploadID = Join [stateAbs s, uploadID @ ''.json'']"

definition partPath :: "Server \<Rightarrow> string \<Rightarrow> string" where
  "partPath s uploadID = Join [stateAbs s, uploadID @ ''.part'']"

text \<open>
  \<^verbatim>\<open>loadMeta\<close> reads whatever file lies at the metadata path of the given id and decodes
  it. \<open>NotExist\<close> is the error that satisfies \<^verbatim>\<open>errors.Is(err, os.ErrNotExist)\<close>,
  \<open>LoadFailed\<close> any other error of \<^verbatim>\<open>os.ReadFile\<close> or of \<^verbatim>\<open>json.Unmarshal\<close>.
\<close>

datatype load_error = NotExist | LoadFailed

definition loadMeta ::
  "json_pkg \<Rightarrow> Server \<Rightarrow> io_env \<Rightarrow> state \<Rightarrow> string \<Rightarrow> load_error + UploadMeta" where
  "loadMeta J s env st uploadID =
     (if load_err env then Inl LoadFailed
      else case files st (metaPath s uploadID) of
        None \<Rightarrow> Inl NotExist
      | Some b \<Rightarrow> (case Unmarshal J b of None \<Rightarrow> Inl LoadFailed | Some meta \<Rightarrow> Inr meta))"

text \<open>
  \<^verbatim>\<open>saveMeta\<close> writes the encoded record to a temporary file and renames that over the
  metadata file, which replaces whatever file was there. The result tells whether it
  returned \<^verbatim>\<open>nil\<close>; a failure after the temporary file was created leaves that file
  behind.
\<close>

definition saveMeta ::
  "json_pkg \<Rightarrow> Server \<Rightarrow> io_env \<Rightarrow> state \<Rightarrow> UploadMeta \<Rightarrow> bool \<times> state" where
  "saveMeta J s env st meta =
     (let tmp = metaPath s (UploadID meta) @ ''.tmp'';
          b = Marshal J meta
      in case save_answer env of
           CreateFailed \<Rightarrow> (False, st)
         | WriteFailed k \<Rightarrow> (False, st\<lparr>files := (files st)(tmp \<mapsto> take k b)\<rparr>)
         | RenameFailed \<Rightarrow> (False, st\<lparr>files := (files st)(tmp \<mapsto> b)\<rparr>)
         | Saved \<Rightarrow>
             (True, st\<lparr>files := ((files st)(tmp := None))(metaPath s (UploadID meta) \<mapsto> b)\<rparr>))"

definition finalAbsPath :: "Server \<Rightarrow> io_env \<Rightarrow> string \<Rightarrow> path_error + string" where
  "finalAbsPath s env rel0 =
     (case sanitizeRelPath rel0 of
        Inl e \<Rightarrow> Inl e
      | Inr rel \<Rightarrow>
          (case Abs (getwd env) (Join [rootAbs s, rel]) of
             Inl e \<Rightarrow> Inl e
           | Inr absp \<Rightarrow> if \<not> isSubpath absp (rootAbs s) then Inl PathEscapesRoot else Inr absp))"

text \<open>\<^verbatim>\<open>lock\<close>: the mutex of an upload id is created on first use.\<close>

definition lock :: "state \<Rightarrow> string \<Rightarrow> state" where
  "lock st uploadID = st\<lparr>muByUpload := insert uploadID (muByUpload st)\<rparr>"

text \<open>\<open>rnd\<close> are the bytes \<^verbatim>\<open>rand.Read\<close> delivers; the buffer starts as 16 zero bytes.\<close>

definition newUploadID :: "string \<Rightarrow> string" where
  "newUploadID rnd = hexEncode (take 16 (rnd @ replicate 16 (CHR 0x00)))"

text \<open>File contents: \<^verbatim>\<open>Truncate\<close> sets the length, \<^verbatim>\<open>WriteAt\<close> overwrites from an offset.\<close>

definition Truncate :: "string \<Rightarrow> nat \<Rightarrow> string" where
  "Truncate f n = take n (f @ replicate (n - length f) (CHR 0x00))"

definition WriteAt :: "string \<Rightarrow> nat \<Rightarrow> string \<Rightarrow> string" where
  "WriteAt f off bs =
     (let g = f @ replicate (off - length f) (CHR 0x00)
      in take off g @ bs @ drop (off + length bs) g)"

text \<open>
  \<^verbatim>\<open>copyToWriterAt\<close> copies what the reader delivers, in pieces of at most 1 MiB, to
  consecutive offsets. Its result is the file after the bytes written before the first
  error, their number, and whether there was an error.
\<close>

definition copyToWriterAt :: "io_env \<Rightarrow> string \<Rightarrow> string \<Rightarrow> nat \<Rightarrow> string \<times> nat \<times> bool" where
  "copyToWriterAt env f r off =
     (case write_fault env of
        None \<Rightarrow> (WriteAt f off r, length r, False)
      | Some k \<Rightarrow> (WriteAt f off (take k r), length (take k r), True))"

subsection \<open>Requests and responses\<close>

datatype DirNode = DirNode (Name: string) (NodeRelPath: string) (Children: "DirNode list")

datatype status =
  BadRequest | NotFound | MethodNotAllowed | Conflict | RequestEntityTooLarge
  | InternalServerError

text \<open>
  A response is either \<^verbatim>\<open>http.Error(w, message, status)\<close> or one of the JSON bodies
  written with status 200.
\<close>

datatype response =
  Error status string
  | InitOK string int64
  | StatusOK UploadMeta
  | ChunkOK int64
  | CompleteOK string
  | CancelOK
  | TreeOK DirNode

record initReq =
  req_Filename :: string
  req_Path :: string
  req_TotalSize :: int64
  req_ChunkSize :: int64

subsection \<open>The upload handlers\<close>

text \<open>
  \<open>handleInit\<close>: \<open>body\<close> is the result of \<^verbatim>\<open>readJSON\<close> (\<open>Inl\<close> its error message),
  \<open>rnd\<close> the bytes of the random source and \<open>now\<close> the clock.
\<close>

definition handleInit ::
  "json_pkg \<Rightarrow> Server \<Rightarrow> io_env \<Rightarrow> state \<Rightarrow> string \<Rightarrow> string + initReq \<Rightarrow> string \<Rightarrow> string
    \<Rightarrow> response \<times> state" where
  "handleInit J s env st method body rnd now =
     (if method \<noteq> ''POST'' then (Error MethodNotAllowed ''method not allowed'', st)
      else case body of
        Inl msg \<Rightarrow> (Error BadRequest msg, st)
      | Inr req \<Rightarrow>
          let filename0 = TrimSpace (req_Filename req);
              path0 = TrimSpace (req_Path req);
              path = (if path0 = [] then filename0 else path0);
              filename = (if filename0 = [] then Base path else filename0)
          in
          if sint (req_TotalSize req) \<le> 0 then
            (Error BadRequest ''total_size must be > 0'', st)
          else if sint (MaxFileBytes (cfg s)) > 0
                  \<and> sint (req_TotalSize req) > sint (MaxFileBytes (cfg s)) then
            (Error RequestEntityTooLarge ''file too large'', st)
          else if sint (req_ChunkSize req) \<le> 0
                  \<or> sint (req_ChunkSize req) > sint (MaxChunkBytes (cfg s)) then
            (Error BadRequest ''invalid chunk_size'', st)
          else case sanitizeRelPath path of
            Inl e \<Rightarrow> (Error BadRequest ''invalid path'', st)
          | Inr rel \<Rightarrow>
              let uploadID = newUploadID rnd;
                  meta = \<lparr>UploadID = uploadID, CreatedAt = now, Filename = filename,
                          RelPath = rel, TotalSize = req_TotalSize req,
                          ChunkSize = req_ChunkSize req, UploadedSize = 0,
                          Completed = False\<rparr>
              in case saveMeta J s env st meta of
                (False, st1) \<Rightarrow> (Error InternalServerError ''save meta failed'', st1)
              | (True, st1) \<Rightarrow>
                  let pp = partPath s uploadID in
                  if mkdir_err env then (Error InternalServerError ''mkdir failed'', st1)
                  else if open_err env then
                    (Error InternalServerError ''create part failed'', st1)
                  else
                    let f = (case files st1 pp of None \<Rightarrow> [] | Some old \<Rightarrow> old);
                        st2 = st1\<lparr>files := (files st1)(pp \<mapsto> f)\<rparr>
                    in if truncate_err env then
                         (Error InternalServerError ''truncate failed'', st2)
                       else
                         (InitOK uploadID 0,
                          st2\<lparr>files := (files st2)
                                (pp \<mapsto> Truncate f (nat (sint (req_TotalSize req))))\<rparr>))"

definition handleStatus ::
  "json_pkg \<Rightarrow> Server \<Rightarrow> io_env \<Rightarrow> state \<Rightarrow> string \<Rightarrow> string \<Rightarrow> response \<times> state" where
  "handleStatus J s env st method upload_id =
     (if method \<noteq> ''GET'' then (Error MethodNotAllowed ''method not allowed'', st)
      else let uploadID = TrimSpace upload_id in
        if uploadID = [] then (Error BadRequest ''missing upload_id'', st)
        else case loadMeta J s env st uploadID of
          Inl NotExist \<Rightarrow> (Error NotFound ''not found'', st)
        | Inl LoadFailed \<Rightarrow> (Error InternalServerError ''load failed'', st)
        | Inr meta \<Rightarrow> (StatusOK meta, st))"

text \<open>
  \<open>handleChunk\<close>: \<open>xoffset\<close> is the header \<^verbatim>\<open>X-Chunk-Offset\<close> (empty when absent),
  \<open>contentLength\<close> is \<^verbatim>\<open>r.ContentLength\<close> and \<open>body\<close> the bytes the request body
  delivers.
\<close>

definition handleChunk ::
  "json_pkg \<Rightarrow> Server \<Rightarrow> io_env \<Rightarrow> state \<Rightarrow> string \<Rightarrow> string \<Rightarrow> string \<Rightarrow> int64 \<Rightarrow> string
    \<Rightarrow> response \<times> state" where
  "handleChunk J s env st method upload_id xoffset contentLength body =
     (if method \<noteq> ''PUT'' then (Error MethodNotAllowed ''method not allowed'', st)
      else let uploadID = TrimSpace upload_id in
        if uploadID = [] then (Error BadRequest ''missing upload_id'', st)
        else let offsetStr = TrimSpace xoffset in
          if offsetStr = [] then (Error BadRequest ''missing X-Chunk-Offset'', st)
          else case ParseInt offsetStr of
            None \<Rightarrow> (Error BadRequest ''invalid offset'', st)
          | Some offset \<Rightarrow>
              if sint offset < 0 then (Error BadRequest ''invalid offset'', st)
              else let chunkLen = contentLength in
                if sint chunkLen \<le> 0 then
                  (Error BadRequest ''missing/invalid Content-Length'', st)
                else if sint chunkLen > sint (MaxChunkBytes (cfg s)) then
                  (Error RequestEntityTooLarge ''chunk too large'', st)
                else
                  let st1 = lock st uploadID in
                  case loadMeta J s env st1 uploadID of
                    Inl NotExist \<Rightarrow> (Error NotFound ''not found'', st1)
                  | Inl LoadFailed \<Rightarrow> (Error InternalServerError ''load failed'', st1)
                  | Inr meta \<Rightarrow>
                      if Completed meta then (Error Conflict ''already completed'', st1)
                      else if sint (offset + chunkLen) > sint (TotalSize meta) then
                        (Error BadRequest ''chunk out of range'', st1)
                      else
                        let pp = partPath s uploadID in
                        case (if open_err env then None else files st1 pp) of
                          None \<Rightarrow> (Error InternalServerError ''open part failed'', st1)
                        | Some f \<Rightarrow>
                            let lr = take (nat (sint chunkLen)) body in
                            case copyToWriterAt env f lr (nat (sint offset)) of
                              (f', wrote, err) \<Rightarrow>
                                let st2 = st1\<lparr>files := (files st1)(pp \<mapsto> f')\<rparr> in
                                if err then (Error InternalServerError ''write failed'', st2)
                                else if wrote \<noteq> nat (sint chunkLen) then
                                  (Error InternalServerError ''short write'', st2)
                                else
                                  let end = offset + chunkLen;
                                      meta = (if sint end > sint (UploadedSize meta)
                                              then meta\<lparr>UploadedSize := end\<rparr> else meta);
                                      lastSaved0 = (case lastSaved st2 uploadID of
                                                      None \<Rightarrow> 0 | Some v \<Rightarrow> v);
                                      st3 = st2\<lparr>lastSaved :=
                                                  (lastSaved st2)(uploadID \<mapsto> lastSaved0)\<rparr>;
                                      needPersist =
                                        (UploadedSize meta = TotalSize meta
                                         \<or> sint (UploadedSize meta - lastSaved0)
                                             \<ge> sint (metaSaveInterval s))
                                  in if needPersist then
                                       (case saveMeta J s env st3 meta of
                                          (False, st4) \<Rightarrow>
                                            (Error InternalServerError ''save failed'', st4)
                                        | (True, st4) \<Rightarrow>
                                            (ChunkOK (UploadedSize meta),
                                             st4\<lparr>lastSaved := (lastSaved st4)
                                                   (uploadID \<mapsto> UploadedSize meta)\<rparr>))
                                     else (ChunkOK (UploadedSize meta), st3))"

text \<open>
  \<open>handleComplete\<close>: \<^verbatim>\<open>os.Rename\<close> moves the part file to the final path and replaces
  whatever file was there.
\<close>

definition handleComplete ::
  "json_pkg \<Rightarrow> Server \<Rightarrow> io_env \<Rightarrow> state \<Rightarrow> string \<Rightarrow> string \<Rightarrow> response \<times> state" where
  "handleComplete J s env st method upload_id =
     (if method \<noteq> ''POST'' then (Error MethodNotAllowed ''method not allowed'', st)
      else let uploadID = TrimSpace upload_id in
        if uploadID = [] then (Error BadRequest ''missing upload_id'', st)
        else
          let st1 = lock st uploadID in
          case loadMeta J s env st1 uploadID of
            Inl NotExist \<Rightarrow> (Error NotFound ''not found'', st1)
          | Inl LoadFailed \<Rightarrow> (Error InternalServerError ''load failed'', st1)
          | Inr meta \<Rightarrow>
              if Completed meta then
                (CompleteOK (case finalAbsPath s env (RelPath meta) of
                               Inl e \<Rightarrow> [] | Inr finalPath \<Rightarrow> finalPath), st1)
              else if sint (UploadedSize meta) < sint (TotalSize meta) then
                (Error Conflict
                   (''not fully uploaded: '' @ showInt64 (UploadedSize meta) @ ''/''
                    @ showInt64 (TotalSize meta)), st1)
              else case finalAbsPath s env (RelPath meta) of
                Inl e \<Rightarrow> (Error BadRequest ''invalid path'', st1)
              | Inr finalAbs \<Rightarrow>
                  if mkdir_err env then (Error InternalServerError ''mkdir failed'', st1)
                  else
                    let pp = partPath s uploadID in
                    case (if rename_err env then None else files st1 pp) of
                      None \<Rightarrow> (Error InternalServerError ''finalize failed'', st1)
                    | Some f \<Rightarrow>
                        let st2 = st1\<lparr>files := ((files st1)(pp := None))(finalAbs \<mapsto> f)\<rparr>;
                            meta = meta\<lparr>Completed := True\<rparr>
                        in case saveMeta J s env st2 meta of
                          (False, st3) \<Rightarrow> (Error InternalServerError ''save failed'', st3)
                        | (True, st3) \<Rightarrow> (CompleteOK finalAbs, st3))"

definition handleCancel ::
  "json_pkg \<Rightarrow> Server \<Rightarrow> io_env \<Rightarrow> state \<Rightarrow> string \<Rightarrow> string \<Rightarrow> response \<times> state" where
  "handleCancel J s env st method upload_id =
     (if method \<noteq> ''POST'' \<and> method \<noteq> ''DELETE'' then
        (Error MethodNotAllowed ''method not allowed'', st)
      else let uploadID = TrimSpace upload_id in
        if uploadID = [] then (Error BadRequest ''missing upload_id'', st)
        else
          let st1 = lock st uploadID in
          case loadMeta J s env st1 uploadID of
            Inl NotExist \<Rightarrow> (Error NotFound ''not found'', st1)
          | Inl LoadFailed \<Rightarrow> (Error InternalServerError ''load failed'', st1)
          | Inr meta \<Rightarrow>
              if Completed meta then (Error Conflict ''already completed'', st1)
              else
                let fs1 = (if remove_part_err env then files st1
                           else (files st1)(partPath s uploadID := None));
                    fs2 = (if remove_meta_err env then fs1
                           else fs1(metaPath s uploadID := None))
                in (CancelOK,
                    st1\<lparr>files := fs2,
                         lastSaved := (lastSaved st1)(uploadID := None),
                         muByUpload := muByUpload st1 - {uploadID}\<rparr>))"

subsection \<open>The directory tree\<close>

text \<open>
  The directories are read through \<open>readDir\<close>, which maps the path of a directory to its
  entries (name, and whether the entry is a directory) in the order \<^verbatim>\<open>ReadDir\<close> lists
  them, or to \<open>None\<close> when \<^verbatim>\<open>os.Open\<close> or \<^verbatim>\<open>ReadDir\<close> fails.

  \<open>loopKids\<close> is the \<^verbatim>\<open>for\<close> loop of the closure \<^verbatim>\<open>build\<close> over the entries \<open>kids\<close>; the
  counter \<^verbatim>\<open>entries\<close>, shared by all calls of the closure, is passed along and returned,
  and \<open>recur\<close> is the recursive call \<^verbatim>\<open>build(childAbs2, childRel, depth+1)\<close>.
\<close>

type_synonym dirReader = "string \<Rightarrow> (string \<times> bool) list option"

fun loopKids ::
  "Server \<Rightarrow> io_env \<Rightarrow> int64 \<Rightarrow> (string \<Rightarrow> string \<Rightarrow> int64 \<Rightarrow> int64 \<times> DirNode option)
    \<Rightarrow> string \<Rightarrow> string \<Rightarrow> (string \<times> bool) list \<Rightarrow> int64 \<Rightarrow> DirNode list
    \<Rightarrow> int64 \<times> DirNode list" where
  "loopKids s env maxEntries recur absDir relDir [] entries children = (entries, children)"
| "loopKids s env maxEntries recur absDir relDir ((deName, deIsDir) # kids) entries children =
     (if sint entries \<ge> sint maxEntries then (entries, children)
      else if \<not> deIsDir then
        loopKids s env maxEntries recur absDir relDir kids entries children
      else if relDir = [] \<and> deName = StateDir (cfg s) then
        loopKids s env maxEntries recur absDir relDir kids entries children
      else if deName = StateDir (cfg s) then
        loopKids s env maxEntries recur absDir relDir kids entries children
      else
        let entries1 = entries + 1;
            childAbs = Join [absDir, deName];
            childRel = (if relDir \<noteq> [] then Join [relDir, deName] else deName)
        in case Abs (getwd env) childAbs of
             Inl e \<Rightarrow> loopKids s env maxEntries recur absDir relDir kids entries1 children
           | Inr childAbs2 \<Rightarrow>
               if \<not> isSubpath childAbs2 (rootAbs s) then
                 loopKids s env maxEntries recur absDir relDir kids entries1 children
               else (case recur childAbs2 childRel entries1 of
                       (entries2, None) \<Rightarrow>
                         loopKids s env maxEntries recur absDir relDir kids entries2 children
                     | (entries2, Some childNode) \<Rightarrow>
                         loopKids s env maxEntries recur absDir relDir kids entries2
                           (children @ [childNode])))"

lemma loopKids_cong [fundef_cong]:
  assumes "\<And>a r e. recur a r e = recur' a r e"
  shows "loopKids s env maxEntries recur absDir relDir kids entries children
         = loopKids s env maxEntries recur' absDir relDir kids entries children"
proof -
  have "recur = recur'" using assms by (intro ext)
  then show ?thesis by simp
qed

function build ::
  "Server \<Rightarrow> io_env \<Rightarrow> dirReader \<Rightarrow> int64 \<Rightarrow> int64 \<Rightarrow> string \<Rightarrow> string \<Rightarrow> int64 \<Rightarrow> int64
    \<Rightarrow> int64 \<times> DirNode option" where
  "build s env readDir maxDepth maxEntries absDir relDir depth entries =
     (let name = (if relDir = [] then Base (rootAbs s) else Base absDir) in
      if sint depth \<ge> sint maxDepth then (entries, Some (DirNode name relDir []))
      else case readDir absDir of
        None \<Rightarrow> (entries, None)
      | Some kids \<Rightarrow>
          (case loopKids s env maxEntries
                  (\<lambda>a r e. build s env readDir maxDepth maxEntries a r (depth + 1) e)
                  absDir relDir kids entries [] of
             (entries', children) \<Rightarrow> (entries', Some (DirNode name relDir children))))"
  by pat_completeness auto

lemma sint_succ_less:
  fixes d m :: int64
  assumes "sint d < sint m"
  shows "sint (d + 1) = sint d + 1"
proof -
  have "sint m < 2 ^ 63" using sint_lt [of m] by simp
  moreover have "- (2 ^ 63) \<le> sint d" using sint_ge [of d] by simp
  ultimately have "- (2 ^ 63) \<le> sint d + 1" "sint d + 1 < 2 ^ 63" using assms by simp_all
  then show ?thesis
    by (simp add: sint_word_ariths signed_take_bit_int_eq_self)
qed

termination build
proof (relation "measure (\<lambda>(s, env, readDir, maxDepth, maxEntries, absDir, relDir, depth, entries).
                  nat (sint maxDepth - sint depth))", goal_cases)
  case 1
  show ?case by simp
next
  case (2 s env readDir maxDepth maxEntries absDir relDir depth entries name kids a r e)
  then have "sint depth < sint maxDepth" by simp
  then show ?case using sint_succ_less [of depth maxDepth] by simp
qed

definition handleStorageTree ::
  "Server \<Rightarrow> io_env \<Rightarrow> dirReader \<Rightarrow> string \<Rightarrow> string \<Rightarrow> string \<Rightarrow> response" where
  "handleStorageTree s env readDir method max_depth max_entries =
     (if method \<noteq> ''GET'' then Error MethodNotAllowed ''method not allowed''
      else
        let v = TrimSpace max_depth;
            maxDepth = (if v \<noteq> [] then
                          (case ParseInt v of
                             None \<Rightarrow> 4
                           | Some n \<Rightarrow> if sint n \<ge> 0 \<and> sint n \<le> 20 then n else 4)
                        else 4);
            v = TrimSpace max_entries;
            maxEntries = (if v \<noteq> [] then
                            (case ParseInt v of
                               None \<Rightarrow> 5000
                             | Some n \<Rightarrow> if sint n \<ge> 1 \<and> sint n \<le> 200000 then n else 5000)
                          else 5000)
        in case build s env readDir maxDepth maxEntries (rootAbs s) [] 0 0 of
             (entries, None) \<Rightarrow> Error InternalServerError ''scan failed''
           | (entries, Some rootNode) \<Rightarrow> TreeOK rootNode)"


subsection \<open>Requests in sequence\<close>

text \<open>
  The routes of the multiplexer that belong to an upload session, and the states a
  server reaches from an empty state directory by serving any requests, each under any
  answers of the operating system, and by being restarted.
\<close>

datatype request =
  Init string "string + initReq" string string
  | Status string string
  | Chunk string string string int64 string
  | Complete string string
  | Cancel string string

fun serve :: "json_pkg \<Rightarrow> Server \<Rightarrow> io_env \<Rightarrow> state \<Rightarrow> request \<Rightarrow> response \<times> state" where
  "serve J s env st (Init method body rnd now) = handleInit J s env st method body rnd now"
| "serve J s env st (Status method upload_id) = handleStatus J s env st method upload_id"
| "serve J s env st (Chunk method upload_id xoffset contentLength body) =
     handleChunk J s env st method upload_id xoffset contentLength body"
| "serve J s env st (Complete method upload_id) = handleComplete J s env st method upload_id"
| "serve J s env st (Cancel method upload_id) = handleCancel J s env st method upload_id"

inductive reachable :: "json_pkg \<Rightarrow> Server \<Rightarrow> state \<Rightarrow> bool" for J :: json_pkg and s :: Server where
  start: "reachable J s emptyState"
| step: "reachable J s st \<Longrightarrow> reachable J s (snd (serve J s env st req))"
| again: "reachable J s st \<Longrightarrow> reachable J s (restart st)"

text \<open>Whether a response is \<^verbatim>\<open>http.Error\<close> with the given status.\<close>

definition rejected :: "response \<Rightarrow> status \<Rightarrow> bool" where
  "rejected r code = (case r of Error c msg \<Rightarrow> c = code | _ \<Rightarrow> False)"

subsection \<open>A concrete JSON package\<close>

text \<open>
  For the concrete sessions below the JSON package is instantiated. \<open>exampleMarshal\<close>
  writes a record as \<^verbatim>\<open>json.MarshalIndent(meta, "", "  ")\<close> does when its strings
  consist of characters that JSON leaves unescaped, and \<open>exampleUnmarshal\<close> reads that
  layout back and rejects every other text.
\<close>

definition jsonString :: "string \<Rightarrow> string" where
  "jsonString v = CHR 0x22 # v @ [CHR 0x22]"

definition jsonBool :: "bool \<Rightarrow> string" where
  "jsonBool b = (if b then ''true'' else ''false'')"

definition jsonField :: "string \<Rightarrow> string \<Rightarrow> string" where
  "jsonField k v = ''  '' @ jsonString k @ '': '' @ v"

fun joinLines :: "string list \<Rightarrow> string" where
  "joinLines [] = []"
| "joinLines [l] = l"
| "joinLines (l # ls) = l @ CHR 0x0A # joinLines ls"

fun splitLines :: "string \<Rightarrow> string list" where
  "splitLines [] = [[]]"
| "splitLines (c # cs) =
     (if c = CHR 0x0A then [] # splitLines cs
      else (case splitLines cs of [] \<Rightarrow> [[c]] | l # ls \<Rightarrow> (c # l) # ls))"

definition exampleMarshal :: "UploadMeta \<Rightarrow> string" where
  "exampleMarshal m =
     joinLines
       [''{'',
        jsonField ''upload_id'' (jsonString (UploadID m)) @ '','',
        jsonField ''created_at'' (jsonString (CreatedAt m)) @ '','',
        jsonField ''filename'' (jsonString (Filename m)) @ '','',
        jsonField ''rel_path'' (jsonString (RelPath m)) @ '','',
        jsonField ''total_size'' (showInt64 (TotalSize m)) @ '','',
        jsonField ''chunk_size'' (showInt64 (ChunkSize m)) @ '','',
        jsonField ''uploaded_size'' (showInt64 (UploadedSize m)) @ '','',
        jsonField ''completed'' (jsonBool (Completed m)),
        ''}'']"

text \<open>The value of the field \<open>k\<close> on a line of that layout, without the comma.\<close>

definition fieldValue :: "string \<Rightarrow> string \<Rightarrow> string" where
  "fieldValue k line =
     (let v = drop (length (jsonField k [])) line
      in if v \<noteq> [] \<and> last v = CHR '','' then butlast v else v)"

definition unquote :: "string \<Rightarrow> string" where
  "unquote v = butlast (tl v)"

definition exampleUnmarshal :: "string \<Rightarrow> UploadMeta option" where
  "exampleUnmarshal b =
     (case splitLines b of
        [l0, l1, l2, l3, l4, l5, l6, l7, l8, l9] \<Rightarrow>
          (case (ParseInt (fieldValue ''total_size'' l5), ParseInt (fieldValue ''chunk_size'' l6),
                 ParseInt (fieldValue ''uploaded_size'' l7)) of
             (Some t, Some c, Some u) \<Rightarrow>
               let m = \<lparr>UploadID = unquote (fieldValue ''upload_id'' l1),
                        CreatedAt = unquote (fieldValue ''created_at'' l2),
                        Filename = unquote (fieldValue ''filename'' l3),
                        RelPath = unquote (fieldValue ''rel_path'' l4),
                        TotalSize = t, ChunkSize = c, UploadedSize = u,
                        Completed = (fieldValue ''completed'' l8 = ''true'')\<rparr>
               in if exampleMarshal m = b then Some m else None
           | _ \<Rightarrow> None)
      | _ \<Rightarrow> None)"

definition exampleJSON :: json_pkg where
  "exampleJSON = \<lparr>Marshal = exampleMarshal, Unmarshal = exampleUnmarshal\<rparr>"

subsection \<open>A concrete server and session\<close>

text \<open>
  The configuration file of the documentation with the root directory \<open>/srv/up\<close>, and the
  session of the specification's scenario: 10 bytes sent to \<open>x/a.bin\<close> in two chunks.
\<close>

definition exampleConfig :: Config where
  "exampleConfig =
     \<lparr>Addr = ''127.0.0.1:8088'', StaticEnable = False, StaticDir = ''../web/dist'',
      RootDir = ''/srv/up'', StateDir = ''.go-upload_state'',
      MaxChunkBytes = 134217728, MaxFileBytes = 0\<rparr>"

definition exampleServer :: Server where
  "exampleServer =
     \<lparr>cfg = exampleConfig, rootAbs = ''/srv/up'', stateAbs = ''/srv/up/.go-upload_state'',
      staticOn = False, metaSaveInterval = 67108864\<rparr>"

definition exampleID :: string where
  "exampleID = ''00000000000000000000000000000000''"

definition exampleTime :: string where
  "exampleTime = ''2024-01-01T00:00:00Z''"

definition exampleInit :: "string \<Rightarrow> string \<Rightarrow> int64 \<Rightarrow> request" where
  "exampleInit filename path n =
     Init ''POST'' (Inr \<lparr>req_Filename = filename, req_Path = path, req_TotalSize = n,
                         req_ChunkSize = 5\<rparr>) [] exampleTime"

definition exampleMeta :: "int64 \<Rightarrow> bool \<Rightarrow> UploadMeta" where
  "exampleMeta u c =
     \<lparr>UploadID = exampleID, CreatedAt = exampleTime, Filename = ''a.bin'',
      RelPath = ''x/a.bin'', TotalSize = 10, ChunkSize = 5, UploadedSize = u, Completed = c\<rparr>"

definition afterInit :: state where
  "afterInit =
     snd (serve exampleJSON exampleServer noFault emptyState (exampleInit ''a.bin'' ''x/a.bin'' 10))"

definition afterChunk1 :: state where
  "afterChunk1 =
     snd (serve exampleJSON exampleServer noFault afterInit (Chunk ''PUT'' exampleID ''0'' 5 ''AAAAA''))"

definition afterChunk2 :: state where
  "afterChunk2 =
     snd (serve exampleJSON exampleServer noFault afterChunk1 (Chunk ''PUT'' exampleID ''5'' 5 ''BBBBB''))"

definition afterComplete :: state where
  "afterComplete =
     snd (serve exampleJSON exampleServer noFault afterChunk2 (Complete ''POST'' exampleID))"

text \<open>A session whose requested path is \<open>//\<close>, with its single byte sent.\<close>

definition slashMeta :: "int64 \<Rightarrow> UploadMeta" where
  "slashMeta u =
     \<lparr>UploadID = exampleID, CreatedAt = exampleTime, Filename = ''a.bin'',
      RelPath = ''/'', TotalSize = 1, ChunkSize = 5, UploadedSize = u, Completed = False\<rparr>"

definition afterSlashInit :: state where
  "afterSlashInit =
     snd (serve exampleJSON exampleServer noFault emptyState (exampleInit ''a.bin'' ''//'' 1))"

definition afterSlashChunk :: state where
  "afterSlashChunk =
     snd (serve exampleJSON exampleServer noFault afterSlashInit (Chunk ''PUT'' exampleID ''0'' 1 ''A''))"

text \<open>The session of the scenario after a first chunk that covers bytes 5 to 7.\<close>

definition afterHighChunk :: state where
  "afterHighChunk =
     snd (serve exampleJSON exampleServer noFault afterInit (Chunk ''PUT'' exampleID ''5'' 3 ''CCC''))"

text \<open>
  A second session, started while the session of the scenario is open. Its requested
  path is the metadata file of the first session, and its content is an encoded
  metadata record of 10 bytes in total with 20 bytes uploaded.
\<close>

definition secondID :: string where
  "secondID = ''01000000000000000000000000000000''"

definition forged :: string where
  "forged = exampleMarshal (exampleMeta 20 False)"

definition secondMeta :: "int64 \<Rightarrow> bool \<Rightarrow> UploadMeta" where
  "secondMeta u c =
     \<lparr>UploadID = secondID, CreatedAt = exampleTime, Filename = ''b.bin'',
      RelPath = ''.go-upload_state/00000000000000000000000000000000.json'',
      TotalSize = 225, ChunkSize = 225, UploadedSize = u, Completed = c\<rparr>"

definition secondInit :: request where
  "secondInit =
     Init ''POST''
       (Inr \<lparr>req_Filename = ''b.bin'',
             req_Path = ''.go-upload_state/00000000000000000000000000000000.json'',
             req_TotalSize = 225, req_ChunkSize = 225\<rparr>)
       [CHR 0x01] exampleTime"

definition afterSecondInit :: state where
  "afterSecondInit = snd (serve exampleJSON exampleServer noFault afterInit secondInit)"

definition afterSecondChunk :: state where
  "afterSecondChunk =
     snd (serve exampleJSON exampleServer noFault afterSecondInit
            (Chunk ''PUT'' secondID ''0'' 225 forged))"

definition afterSecondComplete :: state where
  "afterSecondComplete =
     snd (serve exampleJSON exampleServer noFault afterSecondChunk (Complete ''POST'' secondID))"

section \<open>Properties\<close>

subsection \<open>Evaluation of the concrete session\<close>

lemma json_simps:
  "Marshal exampleJSON = exampleMarshal" "Unmarshal exampleJSON = exampleUnmarshal"
  by (simp_all add: exampleJSON_def)

lemma noFault_simps:
  "getwd noFault = Some ''/''" "\<not> load_err noFault" "save_answer noFault = Saved"
  "\<not> mkdir_err noFault" "\<not> open_err noFault" "\<not> truncate_err noFault"
  "write_fault noFault = None" "\<not> rename_err noFault"
  "\<not> remove_part_err noFault" "\<not> remove_meta_err noFault"
  by (simp_all add: noFault_def)

lemma exampleServer_simps:
  "MaxChunkBytes (cfg exampleServer) = 134217728" "MaxFileBytes (cfg exampleServer) = 0"
  "StateDir (cfg exampleServer) = ''.go-upload_state''"
  "rootAbs exampleServer = ''/srv/up''" "metaSaveInterval exampleServer = 67108864"
  by (simp_all add: exampleServer_def exampleConfig_def)

lemma exampleMeta_simps:
  "UploadID (exampleMeta u c) = exampleID" "RelPath (exampleMeta u c) = ''x/a.bin''"
  "TotalSize (exampleMeta u c) = 10" "UploadedSize (exampleMeta u c) = u"
  "Completed (exampleMeta u c) = c"
  "(exampleMeta u c)\<lparr>UploadedSize := v\<rparr> = exampleMeta v c"
  "(exampleMeta u c)\<lparr>Completed := d\<rparr> = exampleMeta u d"
  "\<lparr>UploadID = exampleID, CreatedAt = exampleTime, Filename = ''a.bin'',
    RelPath = ''x/a.bin'', TotalSize = 10, ChunkSize = 5, UploadedSize = u, Completed = c\<rparr>
   = exampleMeta u c"
  by (simp_all add: exampleMeta_def)

lemma digit_chars:
  "char_of (48::nat) = CHR ''0''" "char_of (49::nat) = CHR ''1''" "char_of (50::nat) = CHR ''2''"
  "char_of (51::nat) = CHR ''3''" "char_of (52::nat) = CHR ''4''" "char_of (53::nat) = CHR ''5''"
  "char_of (54::nat) = CHR ''6''" "char_of (55::nat) = CHR ''7''" "char_of (56::nat) = CHR ''8''"
  "char_of (57::nat) = CHR ''9''"
  by code_simp+

lemma ground_show:
  "showInt64 0 = ''0''" "showInt64 1 = ''1''" "showInt64 5 = ''5''" "showInt64 10 = ''10''"
  "showInt64 20 = ''20''"
  by (simp_all add: showInt64_def digit_chars)

lemma ground_parse:
  "ParseInt ''0'' = Some 0" "ParseInt ''1'' = Some 1" "ParseInt ''5'' = Some 5"
  "ParseInt ''10'' = Some 10"  "ParseInt ''20'' = Some 20"
  "ParseInt ''-1'' = Some (- 1)" "ParseInt ''8'' = Some 8"
  by (simp_all add: ParseInt_def isDigit_def)

lemmas json_defs =
  exampleUnmarshal_def exampleMarshal_def jsonField_def jsonString_def jsonBool_def
  fieldValue_def unquote_def ground_show ground_parse

lemma example_roundtrip:
  "exampleUnmarshal (exampleMarshal (exampleMeta 0 False)) = Some (exampleMeta 0 False)"
  "exampleUnmarshal (exampleMarshal (exampleMeta 10 False)) = Some (exampleMeta 10 False)"
  "exampleUnmarshal (exampleMarshal (exampleMeta 10 True)) = Some (exampleMeta 10 True)"
  "exampleUnmarshal (exampleMarshal (exampleMeta 20 False)) = Some (exampleMeta 20 False)"
  by (simp_all add: json_defs exampleMeta_def exampleID_def exampleTime_def)

lemma ground_trim:
  "TrimSpace ''a.bin'' = ''a.bin''" "TrimSpace ''x/a.bin'' = ''x/a.bin''"
  "TrimSpace exampleID = exampleID"
  "TrimSpace ''0'' = ''0''" "TrimSpace ''5'' = ''5''"
  "TrimSpace ''-1'' = ''-1''" "TrimSpace ''8'' = ''8''"
  unfolding exampleID_def by code_simp+

lemma ground_paths:
  "sanitizeRelPath ''x/a.bin'' = Inr ''x/a.bin''"
  "newUploadID [] = exampleID"
  "metaPath exampleServer exampleID
     = ''/srv/up/.go-upload_state/00000000000000000000000000000000.json''"
  "partPath exampleServer exampleID
     = ''/srv/up/.go-upload_state/00000000000000000000000000000000.part''"
  "finalAbsPath exampleServer noFault ''x/a.bin'' = Inr ''/srv/up/x/a.bin''"
  unfolding exampleID_def by code_simp+

lemma ground_files:
  "Truncate [] 10
     = [CHR 0x00, CHR 0x00, CHR 0x00, CHR 0x00, CHR 0x00, CHR 0x00, CHR 0x00, CHR 0x00, CHR 0x00, CHR 0x00]"
  "WriteAt [CHR 0x00, CHR 0x00, CHR 0x00, CHR 0x00, CHR 0x00, CHR 0x00, CHR 0x00, CHR 0x00, CHR 0x00, CHR 0x00]
     0 ''AAAAA''
     = [CHR ''A'', CHR ''A'', CHR ''A'', CHR ''A'', CHR ''A'', CHR 0x00, CHR 0x00, CHR 0x00, CHR 0x00, CHR 0x00]"
  "WriteAt [CHR ''A'', CHR ''A'', CHR ''A'', CHR ''A'', CHR ''A'', CHR 0x00, CHR 0x00, CHR 0x00, CHR 0x00, CHR 0x00]
     5 ''BBBBB''
     = ''AAAAABBBBB''"
  by (simp_all add: Truncate_def WriteAt_def Let_def numeral_eq_Suc)

lemmas ground = ground_trim ground_parse ground_paths ground_files json_simps example_roundtrip

lemmas example_defs = emptyState_def noFault_simps exampleServer_simps exampleMeta_simps

lemma exampleID_ne: "exampleID \<noteq> []"
  by (simp add: exampleID_def)

lemma afterInit_eq:
  "afterInit =
     \<lparr>muByUpload = {}, lastSaved = Map.empty,
      files = [''/srv/up/.go-upload_state/00000000000000000000000000000000.json'' \<mapsto>
                 exampleMarshal (exampleMeta 0 False),
               ''/srv/up/.go-upload_state/00000000000000000000000000000000.part'' \<mapsto>
                 [CHR 0x00, CHR 0x00, CHR 0x00, CHR 0x00, CHR 0x00, CHR 0x00, CHR 0x00, CHR 0x00, CHR 0x00, CHR 0x00]]\<rparr>"
  unfolding afterInit_def exampleInit_def
  by (simp add: handleInit_def Let_def saveMeta_def ground example_defs)

lemma afterChunk1_eq:
  "afterChunk1 =
     \<lparr>muByUpload = {exampleID}, lastSaved = [exampleID \<mapsto> 0],
      files = [''/srv/up/.go-upload_state/00000000000000000000000000000000.json'' \<mapsto>
                 exampleMarshal (exampleMeta 0 False),
               ''/srv/up/.go-upload_state/00000000000000000000000000000000.part'' \<mapsto>
                 [CHR ''A'', CHR ''A'', CHR ''A'', CHR ''A'', CHR ''A'', CHR 0x00, CHR 0x00, CHR 0x00, CHR 0x00, CHR 0x00]]\<rparr>"
  unfolding afterChunk1_def afterInit_eq
  by (simp add: handleChunk_def Let_def saveMeta_def loadMeta_def lock_def copyToWriterAt_def
        ground example_defs exampleID_ne)

lemma afterChunk2_eq:
  "afterChunk2 =
     \<lparr>muByUpload = {exampleID}, lastSaved = [exampleID \<mapsto> 10],
      files = [''/srv/up/.go-upload_state/00000000000000000000000000000000.part'' \<mapsto>
                 ''AAAAABBBBB'',
               ''/srv/up/.go-upload_state/00000000000000000000000000000000.json'' \<mapsto>
                 exampleMarshal (exampleMeta 10 False)]\<rparr>"
  unfolding afterChunk2_def afterChunk1_eq
  by (simp add: handleChunk_def Let_def saveMeta_def loadMeta_def lock_def copyToWriterAt_def
        ground example_defs exampleID_ne fun_eq_iff)

lemma afterComplete_eq:
  "afterComplete =
     \<lparr>muByUpload = {exampleID}, lastSaved = [exampleID \<mapsto> 10],
      files = [''/srv/up/x/a.bin'' \<mapsto> ''AAAAABBBBB'',
               ''/srv/up/.go-upload_state/00000000000000000000000000000000.json'' \<mapsto>
                 exampleMarshal (exampleMeta 10 True)]\<rparr>"
  unfolding afterComplete_def afterChunk2_eq
  by (simp add: handleComplete_def Let_def saveMeta_def loadMeta_def lock_def
        ground example_defs exampleID_ne fun_eq_iff)

lemma reachable_afterInit: "reachable exampleJSON exampleServer afterInit"
  unfolding afterInit_def by (rule reachable.step) (rule reachable.start)


subsection \<open>A finished file that lands in the state directory\<close>

lemma secondMeta_simps:
  "UploadID (secondMeta u c) = secondID"
  "RelPath (secondMeta u c) = ''.go-upload_state/00000000000000000000000000000000.json''"
  "TotalSize (secondMeta u c) = 225" "UploadedSize (secondMeta u c) = u"
  "Completed (secondMeta u c) = c"
  "(secondMeta u c)\<lparr>UploadedSize := v\<rparr> = secondMeta v c"
  "(secondMeta u c)\<lparr>Completed := d\<rparr> = secondMeta u d"
  "\<lparr>UploadID = secondID, CreatedAt = exampleTime, Filename = ''b.bin'',
    RelPath = ''.go-upload_state/00000000000000000000000000000000.json'',
    TotalSize = 225, ChunkSize = 225, UploadedSize = u, Completed = c\<rparr>
   = secondMeta u c"
  by (simp_all add: secondMeta_def)

lemma ground_show_second: "showInt64 225 = ''225''"
  by (simp add: showInt64_def digit_chars)

lemma ground_parse_second: "ParseInt ''225'' = Some 225"
  by (simp add: ParseInt_def isDigit_def)

lemma second_roundtrip:
  "exampleUnmarshal (exampleMarshal (secondMeta 0 False)) = Some (secondMeta 0 False)"
  "exampleUnmarshal (exampleMarshal (secondMeta 225 False)) = Some (secondMeta 225 False)"
  by (simp_all add: json_defs ground_show_second ground_parse_second secondMeta_def secondID_def
        exampleTime_def)

lemma forged_length: "length forged = 225"
  by (simp add: forged_def json_defs exampleMeta_def exampleID_def exampleTime_def)

lemma forged_decodes: "exampleUnmarshal forged = Some (exampleMeta 20 False)"
  by (simp add: forged_def ground)

lemma ground_second:
  "TrimSpace ''b.bin'' = ''b.bin''"
  "TrimSpace ''.go-upload_state/00000000000000000000000000000000.json''
     = ''.go-upload_state/00000000000000000000000000000000.json''"
  "TrimSpace secondID = secondID"
  "sanitizeRelPath ''.go-upload_state/00000000000000000000000000000000.json''
     = Inr ''.go-upload_state/00000000000000000000000000000000.json''"
  "newUploadID [CHR 0x01] = secondID"
  "metaPath exampleServer secondID
     = ''/srv/up/.go-upload_state/01000000000000000000000000000000.json''"
  "partPath exampleServer secondID
     = ''/srv/up/.go-upload_state/01000000000000000000000000000000.part''"
  "finalAbsPath exampleServer noFault ''.go-upload_state/00000000000000000000000000000000.json''
     = Inr ''/srv/up/.go-upload_state/00000000000000000000000000000000.json''"
  unfolding secondID_def by code_simp+

lemma secondID_ne: "secondID \<noteq> []" "secondID \<noteq> exampleID"
  by (simp_all add: secondID_def exampleID_def)

lemma Truncate_empty: "Truncate [] n = replicate n (CHR 0x00)"
  by (simp add: Truncate_def)

lemma WriteAt_whole: "length bs = n \<Longrightarrow> WriteAt (replicate n c) 0 bs = bs"
  by (simp add: WriteAt_def)

lemma afterSecondInit_eq:
  "afterSecondInit =
     \<lparr>muByUpload = {}, lastSaved = Map.empty,
      files = [''/srv/up/.go-upload_state/00000000000000000000000000000000.json'' \<mapsto>
                 exampleMarshal (exampleMeta 0 False),
               ''/srv/up/.go-upload_state/00000000000000000000000000000000.part'' \<mapsto>
                 [CHR 0x00, CHR 0x00, CHR 0x00, CHR 0x00, CHR 0x00, CHR 0x00, CHR 0x00,
                  CHR 0x00, CHR 0x00, CHR 0x00],
               ''/srv/up/.go-upload_state/01000000000000000000000000000000.json'' \<mapsto>
                 exampleMarshal (secondMeta 0 False),
               ''/srv/up/.go-upload_state/01000000000000000000000000000000.part'' \<mapsto>
                 replicate 225 (CHR 0x00)]\<rparr>"
  unfolding afterSecondInit_def secondInit_def afterInit_eq
  by (simp add: handleInit_def Let_def saveMeta_def ground ground_second Truncate_empty
        noFault_simps exampleServer_simps secondMeta_simps fun_eq_iff)

lemma afterSecondChunk_eq:
  "afterSecondChunk =
     \<lparr>muByUpload = {secondID}, lastSaved = [secondID \<mapsto> 225],
      files = [''/srv/up/.go-upload_state/00000000000000000000000000000000.json'' \<mapsto>
                 exampleMarshal (exampleMeta 0 False),
               ''/srv/up/.go-upload_state/00000000000000000000000000000000.part'' \<mapsto>
                 [CHR 0x00, CHR 0x00, CHR 0x00, CHR 0x00, CHR 0x00, CHR 0x00, CHR 0x00,
                  CHR 0x00, CHR 0x00, CHR 0x00],
               ''/srv/up/.go-upload_state/01000000000000000000000000000000.json'' \<mapsto>
                 exampleMarshal (secondMeta 225 False),
               ''/srv/up/.go-upload_state/01000000000000000000000000000000.part'' \<mapsto>
                 forged]\<rparr>"
  unfolding afterSecondChunk_def afterSecondInit_eq
  by (simp add: handleChunk_def Let_def saveMeta_def loadMeta_def lock_def copyToWriterAt_def
        ground ground_second ground_parse_second second_roundtrip forged_length WriteAt_whole
        noFault_simps exampleServer_simps secondMeta_simps secondID_ne fun_eq_iff)

lemma afterSecondComplete_eq:
  "afterSecondComplete =
     \<lparr>muByUpload = {secondID}, lastSaved = [secondID \<mapsto> 225],
      files = [''/srv/up/.go-upload_state/00000000000000000000000000000000.json'' \<mapsto> forged,
               ''/srv/up/.go-upload_state/00000000000000000000000000000000.part'' \<mapsto>
                 [CHR 0x00, CHR 0x00, CHR 0x00, CHR 0x00, CHR 0x00, CHR 0x00, CHR 0x00,
                  CHR 0x00, CHR 0x00, CHR 0x00],
               ''/srv/up/.go-upload_state/01000000000000000000000000000000.json'' \<mapsto>
                 exampleMarshal (secondMeta 225 True)]\<rparr>"
  unfolding afterSecondComplete_def afterSecondChunk_eq
  by (simp add: handleComplete_def Let_def saveMeta_def loadMeta_def lock_def
        ground ground_second second_roundtrip
        noFault_simps exampleServer_simps secondMeta_simps secondID_ne fun_eq_iff)

text \<open>
  C2. While the 10-byte session of the scenario is open (its metadata says
  \<open>uploaded_size = 0\<close>), a second session is started whose path is the metadata file
  of the first; \<open>sanitizeRelPath\<close> and \<open>finalAbsPath\<close> accept it. The second session
  uploads an encoded metadata record and is completed, and the rename puts that record
  in the place of the first session's metadata. The state is reachable, and in it
  \<open>handleStatus\<close> reports for the first session \<open>uploaded_size = 20\<close> with
  \<open>total_size = 10\<close>.
\<close>

theorem state_directory_overwrite:
  "handleStatus exampleJSON exampleServer noFault afterInit ''GET'' exampleID
     = (StatusOK (exampleMeta 0 False), afterInit)
   \<and> reachable exampleJSON exampleServer afterSecondComplete
   \<and> handleStatus exampleJSON exampleServer noFault afterSecondComplete ''GET'' exampleID
       = (StatusOK (exampleMeta 20 False), afterSecondComplete)
   \<and> sint (UploadedSize (exampleMeta 20 False)) = 20
   \<and> sint (TotalSize (exampleMeta 20 False)) = 10"
proof (intro conjI)
  show "handleStatus exampleJSON exampleServer noFault afterInit ''GET'' exampleID
     = (StatusOK (exampleMeta 0 False), afterInit)"
    unfolding afterInit_eq
    by (simp add: handleStatus_def Let_def loadMeta_def ground example_defs exampleID_ne)
  have "reachable exampleJSON exampleServer afterSecondInit"
    unfolding afterSecondInit_def using reachable_afterInit by (rule reachable.step)
  then have "reachable exampleJSON exampleServer afterSecondChunk"
    unfolding afterSecondChunk_def by (rule reachable.step)
  then show "reachable exampleJSON exampleServer afterSecondComplete"
    unfolding afterSecondComplete_def by (rule reachable.step)
  show "handleStatus exampleJSON exampleServer noFault afterSecondComplete ''GET'' exampleID
       = (StatusOK (exampleMeta 20 False), afterSecondComplete)"
    unfolding afterSecondComplete_eq
    by (simp add: handleStatus_def Let_def loadMeta_def ground forged_decodes example_defs
          exampleID_ne)
  show "sint (UploadedSize (exampleMeta 20 False)) = 20"
    by (simp add: example_defs)
  show "sint (TotalSize (exampleMeta 20 False)) = 10"
    by (simp add: example_defs)
qed

subsection \<open>Sessions that leave the invariant\<close>

lemma slashMeta_simps:
  "UploadID (slashMeta u) = exampleID" "RelPath (slashMeta u) = ''/''"
  "TotalSize (slashMeta u) = 1" "UploadedSize (slashMeta u) = u"
  "Completed (slashMeta u) = False"
  "(slashMeta u)\<lparr>UploadedSize := v\<rparr> = slashMeta v"
  "\<lparr>UploadID = exampleID, CreatedAt = exampleTime, Filename = ''a.bin'',
    RelPath = ''/'', TotalSize = 1, ChunkSize = 5, UploadedSize = u, Completed = False\<rparr>
   = slashMeta u"
  by (simp_all add: slashMeta_def)

lemma slash_roundtrip:
  "exampleUnmarshal (exampleMarshal (slashMeta 0)) = Some (slashMeta 0)"
  "exampleUnmarshal (exampleMarshal (slashMeta 1)) = Some (slashMeta 1)"
  by (simp_all add: json_defs slashMeta_def exampleID_def exampleTime_def)

lemma ground_slash:
  "TrimSpace ''//'' = ''//''" "sanitizeRelPath ''//'' = Inr ''/''"
  "finalAbsPath exampleServer noFault ''/'' = Inl EmptyPath"
  by code_simp+

lemma ground_slash_files:
  "Truncate [] (Suc 0) = [CHR 0x00]" "WriteAt [CHR 0x00] 0 ''A'' = ''A''"
  by (simp_all add: Truncate_def WriteAt_def)

lemma afterSlashInit_eq:
  "afterSlashInit =
     \<lparr>muByUpload = {}, lastSaved = Map.empty,
      files = [''/srv/up/.go-upload_state/00000000000000000000000000000000.json'' \<mapsto>
                 exampleMarshal (slashMeta 0),
               ''/srv/up/.go-upload_state/00000000000000000000000000000000.part'' \<mapsto>
                 [CHR 0x00]]\<rparr>"
  unfolding afterSlashInit_def exampleInit_def
  by (simp add: handleInit_def Let_def saveMeta_def ground ground_slash ground_slash_files
        example_defs slashMeta_simps)

lemma afterSlashChunk_eq:
  "afterSlashChunk =
     \<lparr>muByUpload = {exampleID}, lastSaved = [exampleID \<mapsto> 1],
      files = [''/srv/up/.go-upload_state/00000000000000000000000000000000.part'' \<mapsto> ''A'',
               ''/srv/up/.go-upload_state/00000000000000000000000000000000.json'' \<mapsto>
                 exampleMarshal (slashMeta 1)]\<rparr>"
  unfolding afterSlashChunk_def afterSlashInit_eq
  by (simp add: handleChunk_def Let_def saveMeta_def loadMeta_def lock_def copyToWriterAt_def
        ground ground_slash_files slash_roundtrip example_defs slashMeta_simps exampleID_ne
        fun_eq_iff)

text \<open>
  C3. The session started with the path \<open>//\<close> is accepted by \<open>handleInit\<close>, which stores
  the relative path \<open>/\<close>. After its single byte is uploaded the stored
  \<open>uploaded_size\<close> equals \<open>total_size\<close>, and \<open>handleComplete\<close> answers 400
  "invalid path" and changes nothing, where the claim promises success.
\<close>

theorem complete_rejects_stored_path:
  "reachable exampleJSON exampleServer afterSlashChunk
   \<and> handleStatus exampleJSON exampleServer noFault afterSlashChunk ''GET'' exampleID
       = (StatusOK (slashMeta 1), afterSlashChunk)
   \<and> UploadedSize (slashMeta 1) = TotalSize (slashMeta 1)
   \<and> handleComplete exampleJSON exampleServer noFault afterSlashChunk ''POST'' exampleID
       = (Error BadRequest ''invalid path'', afterSlashChunk)"
proof (intro conjI)
  have "reachable exampleJSON exampleServer afterSlashInit"
    unfolding afterSlashInit_def by (rule reachable.step) (rule reachable.start)
  then show "reachable exampleJSON exampleServer afterSlashChunk"
    unfolding afterSlashChunk_def by (rule reachable.step)
  show "handleStatus exampleJSON exampleServer noFault afterSlashChunk ''GET'' exampleID
       = (StatusOK (slashMeta 1), afterSlashChunk)"
    unfolding afterSlashChunk_eq
    by (simp add: handleStatus_def Let_def loadMeta_def ground slash_roundtrip example_defs
          exampleID_ne)
  show "UploadedSize (slashMeta 1) = TotalSize (slashMeta 1)"
    by (simp add: slashMeta_simps)
  show "handleComplete exampleJSON exampleServer noFault afterSlashChunk ''POST'' exampleID
       = (Error BadRequest ''invalid path'', afterSlashChunk)"
    unfolding afterSlashChunk_eq
    by (simp add: handleComplete_def Let_def loadMeta_def lock_def ground ground_slash
          slash_roundtrip example_defs slashMeta_simps exampleID_ne)
qed

lemma ground_high:
  "TrimSpace ''5'' = ''5''" "TrimSpace ''0'' = ''0''"
  by code_simp+

lemma ground_high_files:
  "WriteAt [CHR 0x00, CHR 0x00, CHR 0x00, CHR 0x00, CHR 0x00, CHR 0x00, CHR 0x00, CHR 0x00,
            CHR 0x00, CHR 0x00] 5 ''CCC''
     = [CHR 0x00, CHR 0x00, CHR 0x00, CHR 0x00, CHR 0x00, CHR ''C'', CHR ''C'', CHR ''C'',
        CHR 0x00, CHR 0x00]"
  by (simp add: WriteAt_def Let_def numeral_eq_Suc)

lemma afterHighChunk_eq:
  "afterHighChunk =
     \<lparr>muByUpload = {exampleID}, lastSaved = [exampleID \<mapsto> 0],
      files = [''/srv/up/.go-upload_state/00000000000000000000000000000000.json'' \<mapsto>
                 exampleMarshal (exampleMeta 0 False),
               ''/srv/up/.go-upload_state/00000000000000000000000000000000.part'' \<mapsto>
                 [CHR 0x00, CHR 0x00, CHR 0x00, CHR 0x00, CHR 0x00, CHR ''C'', CHR ''C'',
                  CHR ''C'', CHR 0x00, CHR 0x00]]\<rparr>"
  unfolding afterHighChunk_def afterInit_eq
  by (simp add: handleChunk_def Let_def saveMeta_def loadMeta_def lock_def copyToWriterAt_def
        ground ground_high_files example_defs exampleID_ne)

text \<open>
  C5. In the 10-byte session a first chunk at offset 5 of length 3 is accepted with
  \<open>uploaded_size = 8\<close>; the metadata file is not written and still says 0. A second
  chunk at offset 0 of length 2 is accepted with \<open>uploaded_size = 2\<close>, which is neither
  \<open>max 8 2\<close> nor at least the 8 answered before.
\<close>

theorem chunk_out_of_order:
  "handleChunk exampleJSON exampleServer noFault afterInit ''PUT'' exampleID ''5'' 3 ''CCC''
     = (ChunkOK 8, afterHighChunk)
   \<and> handleStatus exampleJSON exampleServer noFault afterHighChunk ''GET'' exampleID
       = (StatusOK (exampleMeta 0 False), afterHighChunk)
   \<and> fst (handleChunk exampleJSON exampleServer noFault afterHighChunk ''PUT'' exampleID ''0'' 2 ''DD'')
       = ChunkOK 2"
proof (intro conjI)
  show "handleChunk exampleJSON exampleServer noFault afterInit ''PUT'' exampleID ''5'' 3 ''CCC''
     = (ChunkOK 8, afterHighChunk)"
    unfolding afterHighChunk_eq unfolding afterInit_eq
    by (simp add: handleChunk_def Let_def saveMeta_def loadMeta_def lock_def copyToWriterAt_def
        ground ground_high_files example_defs exampleID_ne)
  show "handleStatus exampleJSON exampleServer noFault afterHighChunk ''GET'' exampleID
       = (StatusOK (exampleMeta 0 False), afterHighChunk)"
    unfolding afterHighChunk_eq
    by (simp add: handleStatus_def Let_def loadMeta_def ground example_defs exampleID_ne)
  show "fst (handleChunk exampleJSON exampleServer noFault afterHighChunk ''PUT'' exampleID ''0'' 2 ''DD'')
       = ChunkOK 2"
    unfolding afterHighChunk_eq
    by (simp add: handleChunk_def Let_def saveMeta_def loadMeta_def lock_def copyToWriterAt_def
        ground example_defs exampleID_ne)
qed

subsection \<open>Chunk requests\<close>

lemma loadMeta_lock: "loadMeta J s env (lock st i) u = loadMeta J s env st u"
  by (simp add: loadMeta_def lock_def)

lemma loadMeta_NotExist:
  "loadMeta J s env st u = Inl NotExist \<longleftrightarrow> \<not> load_err env \<and> files st (metaPath s u) = None"
  by (simp add: loadMeta_def split: option.split)

lemma sint_add_no_overflow:
  fixes a b :: int64
  assumes "0 \<le> sint a" "0 \<le> sint b" "sint a + sint b < 2 ^ 63"
  shows "sint (a + b) = sint a + sint b"
proof -
  have "- (2 ^ 63) \<le> sint a + sint b" using assms by simp
  with assms(3) show ?thesis
    by (simp add: sint_word_ariths signed_take_bit_int_eq_self)
qed

lemma handleChunk_status:
  "\<forall>r st'. handleChunk J s env st meth u x c b = (r, st') \<longrightarrow>
     (rejected r MethodNotAllowed \<longleftrightarrow> meth \<noteq> ''PUT'')
     \<and> (rejected r BadRequest \<longleftrightarrow>
          meth = ''PUT''
          \<and> (TrimSpace u = [] \<or> TrimSpace x = []
              \<or> (case ParseInt (TrimSpace x) of
                    None \<Rightarrow> True
                  | Some off \<Rightarrow>
                      sint off < 0 \<or> sint c \<le> 0
                      \<or> (sint c \<le> sint (MaxChunkBytes (cfg s))
                          \<and> (case loadMeta J s env st (TrimSpace u) of
                                Inl e \<Rightarrow> False
                              | Inr m \<Rightarrow> \<not> Completed m
                                         \<and> sint (off + c) > sint (TotalSize m))))))
     \<and> (rejected r RequestEntityTooLarge \<longleftrightarrow>
          meth = ''PUT'' \<and> TrimSpace u \<noteq> [] \<and> TrimSpace x \<noteq> []
          \<and> (case ParseInt (TrimSpace x) of
                None \<Rightarrow> False
              | Some off \<Rightarrow> 0 \<le> sint off \<and> 0 < sint c
                             \<and> sint c > sint (MaxChunkBytes (cfg s))))
     \<and> (rejected r NotFound \<longleftrightarrow>
          meth = ''PUT'' \<and> TrimSpace u \<noteq> [] \<and> TrimSpace x \<noteq> []
          \<and> (case ParseInt (TrimSpace x) of
                None \<Rightarrow> False
              | Some off \<Rightarrow> 0 \<le> sint off \<and> 0 < sint c
                             \<and> sint c \<le> sint (MaxChunkBytes (cfg s))
                             \<and> loadMeta J s env st (TrimSpace u) = Inl NotExist))
     \<and> (rejected r Conflict \<longleftrightarrow>
          meth = ''PUT'' \<and> TrimSpace u \<noteq> [] \<and> TrimSpace x \<noteq> []
          \<and> (case ParseInt (TrimSpace x) of
                None \<Rightarrow> False
              | Some off \<Rightarrow> 0 \<le> sint off \<and> 0 < sint c
                             \<and> sint c \<le> sint (MaxChunkBytes (cfg s))
                             \<and> (case loadMeta J s env st (TrimSpace u) of
                                   Inl e \<Rightarrow> False | Inr m \<Rightarrow> Completed m)))
     \<and> (meth = ''PUT'' \<and> TrimSpace u \<noteq> [] \<and> TrimSpace x \<noteq> []
          \<and> (case ParseInt (TrimSpace x) of
                None \<Rightarrow> False
              | Some off \<Rightarrow> 0 \<le> sint off \<and> 0 < sint c
                             \<and> sint c \<le> sint (MaxChunkBytes (cfg s))
                             \<and> loadMeta J s env st (TrimSpace u) = Inl LoadFailed)
          \<longrightarrow> rejected r InternalServerError)"
  by (simp add: handleChunk_def Let_def loadMeta_lock saveMeta_def copyToWriterAt_def
        rejected_def
        split: sum.split load_error.split option.split prod.split save_answer.split)

lemma handleChunk_rejected_state:
  "\<forall>r st'. handleChunk J s env st meth u x c b = (r, st') \<longrightarrow>
     rejected r BadRequest \<or> rejected r RequestEntityTooLarge \<or> rejected r NotFound
     \<or> rejected r Conflict \<or> rejected r MethodNotAllowed \<longrightarrow>
     st' = st \<or> st' = lock st (TrimSpace u)"
  by (simp add: handleChunk_def Let_def loadMeta_lock saveMeta_def copyToWriterAt_def
        rejected_def
        split: sum.split load_error.split option.split prod.split save_answer.split)
text \<open>
  C4 (as stated). Two counterexamples: a chunk with offset \<open>-1\<close> for an id without
  metadata is answered 400 "invalid offset", not NotFound; and a chunk of bytes 8 to 12 for
  the completed 10-byte session is answered 409 Conflict, although
  \<open>offset + length > total_size\<close>.
\<close>

theorem chunk_rejections_counterexample:
  "files emptyState (metaPath exampleServer exampleID) = None
   \<and> handleChunk exampleJSON exampleServer noFault emptyState ''PUT'' exampleID ''-1'' 1 ''A''
       = (Error BadRequest ''invalid offset'', emptyState)
   \<and> handleStatus exampleJSON exampleServer noFault afterComplete ''GET'' exampleID
       = (StatusOK (exampleMeta 10 True), afterComplete)
   \<and> TotalSize (exampleMeta 10 True) = 10
   \<and> handleChunk exampleJSON exampleServer noFault afterComplete ''PUT'' exampleID ''8'' 5 ''AAAAA''
       = (Error Conflict ''already completed'', afterComplete)"
proof (intro conjI)
  show "files emptyState (metaPath exampleServer exampleID) = None"
    by (simp add: emptyState_def)
  show "handleChunk exampleJSON exampleServer noFault emptyState ''PUT'' exampleID ''-1'' 1 ''A''
       = (Error BadRequest ''invalid offset'', emptyState)"
    by (simp add: handleChunk_def Let_def ground exampleID_ne)
  show "handleStatus exampleJSON exampleServer noFault afterComplete ''GET'' exampleID
       = (StatusOK (exampleMeta 10 True), afterComplete)"
    unfolding afterComplete_eq
    by (simp add: handleStatus_def Let_def loadMeta_def ground example_defs exampleID_ne)
  show "TotalSize (exampleMeta 10 True) = 10"
    by (simp add: example_defs)
  show "handleChunk exampleJSON exampleServer noFault afterComplete ''PUT'' exampleID ''8'' 5 ''AAAAA''
       = (Error Conflict ''already completed'', afterComplete)"
    unfolding afterComplete_eq
    by (simp add: handleChunk_def Let_def loadMeta_def lock_def ground example_defs exampleID_ne)
qed

text \<open>
  C4, amended. A chunk request is checked in this order, and the first failing check
  decides the answer:
  \<^item> 405 unless the method is \<^verbatim>\<open>PUT\<close>;
  \<^item> 400 BadRequest when the upload id is blank;
  \<^item> 400 BadRequest when the offset header is missing, is not an \<^verbatim>\<open>int64\<close> or is
    negative, or when the length is not positive;
  \<^item> 413 RequestEntityTooLarge when the length exceeds the maximum chunk size;
  \<^item> the file at the metadata path of the id is read: 404 NotFound when the read reports
    that it does not exist, 500 on any other error of the read or of the decoding;
  \<^item> 409 Conflict when the metadata read says completed;
  \<^item> 400 BadRequest when \<open>offset + length > total_size\<close>.
  A request answered 400, 404, 405, 409 or 413 leaves the files and \<^verbatim>\<open>lastSaved\<close>
  unchanged. The statement is about the requests whose \<open>offset + length\<close> does not
  exceed \<open>2^63 - 1\<close>, and \<open>(r, st')\<close> is what the handler returns.
\<close>

theorem chunk_rejections:
  assumes fit: "\<forall>off. ParseInt (TrimSpace x) = Some off \<longrightarrow> sint off + sint c < 2 ^ 63"
    and h: "handleChunk J s env st meth u x c b = (r, st')"
  shows "(rejected r MethodNotAllowed \<longleftrightarrow> meth \<noteq> ''PUT'')
     \<and> (rejected r BadRequest \<longleftrightarrow>
          meth = ''PUT''
          \<and> (TrimSpace u = [] \<or> TrimSpace x = []
              \<or> (case ParseInt (TrimSpace x) of
                    None \<Rightarrow> True
                  | Some off \<Rightarrow>
                      sint off < 0 \<or> sint c \<le> 0
                      \<or> (sint c \<le> sint (MaxChunkBytes (cfg s))
                          \<and> (case loadMeta J s env st (TrimSpace u) of
                                Inl e \<Rightarrow> False
                              | Inr m \<Rightarrow> \<not> Completed m
                                         \<and> sint off + sint c > sint (TotalSize m))))))
     \<and> (rejected r RequestEntityTooLarge \<longleftrightarrow>
          meth = ''PUT'' \<and> TrimSpace u \<noteq> [] \<and> TrimSpace x \<noteq> []
          \<and> (case ParseInt (TrimSpace x) of
                None \<Rightarrow> False
              | Some off \<Rightarrow> 0 \<le> sint off \<and> 0 < sint c
                             \<and> sint c > sint (MaxChunkBytes (cfg s))))
     \<and> (rejected r NotFound \<longleftrightarrow>
          meth = ''PUT'' \<and> TrimSpace u \<noteq> [] \<and> TrimSpace x \<noteq> []
          \<and> (case ParseInt (TrimSpace x) of
                None \<Rightarrow> False
              | Some off \<Rightarrow> 0 \<le> sint off \<and> 0 < sint c
                             \<and> sint c \<le> sint (MaxChunkBytes (cfg s))
                             \<and> \<not> load_err env
                             \<and> files st (metaPath s (TrimSpace u)) = None))
     \<and> (rejected r Conflict \<longleftrightarrow>
          meth = ''PUT'' \<and> TrimSpace u \<noteq> [] \<and> TrimSpace x \<noteq> []
          \<and> (case ParseInt (TrimSpace x) of
                None \<Rightarrow> False
              | Some off \<Rightarrow> 0 \<le> sint off \<and> 0 < sint c
                             \<and> sint c \<le> sint (MaxChunkBytes (cfg s))
                             \<and> (case loadMeta J s env st (TrimSpace u) of
                                   Inl e \<Rightarrow> False | Inr m \<Rightarrow> Completed m)))
     \<and> (meth = ''PUT'' \<and> TrimSpace u \<noteq> [] \<and> TrimSpace x \<noteq> []
          \<and> (case ParseInt (TrimSpace x) of
                None \<Rightarrow> False
              | Some off \<Rightarrow> 0 \<le> sint off \<and> 0 < sint c
                             \<and> sint c \<le> sint (MaxChunkBytes (cfg s))
                             \<and> loadMeta J s env st (TrimSpace u) = Inl LoadFailed)
          \<longrightarrow> rejected r InternalServerError)
     \<and> (rejected r BadRequest \<or> rejected r RequestEntityTooLarge \<or> rejected r NotFound
          \<or> rejected r Conflict \<or> rejected r MethodNotAllowed
          \<longrightarrow> files st' = files st \<and> lastSaved st' = lastSaved st)"
proof -
  note st = handleChunk_status [of J s env st meth u x c b, THEN spec, THEN spec, THEN mp, OF h]
  have sum: "sint (off + c) = sint off + sint c"
    if "ParseInt (TrimSpace x) = Some off" "0 \<le> sint off" "0 < sint c" for off
    using that fit sint_add_no_overflow [of off c] by simp
  have bad: "rejected r BadRequest \<longleftrightarrow>
          meth = ''PUT''
          \<and> (TrimSpace u = [] \<or> TrimSpace x = []
              \<or> (case ParseInt (TrimSpace x) of
                    None \<Rightarrow> True
                  | Some off \<Rightarrow>
                      sint off < 0 \<or> sint c \<le> 0
                      \<or> (sint c \<le> sint (MaxChunkBytes (cfg s))
                          \<and> (case loadMeta J s env st (TrimSpace u) of
                                Inl e \<Rightarrow> False
                              | Inr m \<Rightarrow> \<not> Completed m
                                         \<and> sint off + sint c > sint (TotalSize m)))))"
  proof (cases "ParseInt (TrimSpace x)")
    case None
    with st [THEN conjunct2, THEN conjunct1] show ?thesis by simp
  next
    case (Some off)
    show ?thesis
    proof (cases "sint off < 0 \<or> sint c \<le> 0")
      case True
      with Some st [THEN conjunct2, THEN conjunct1] show ?thesis by auto
    next
      case False
      then have "sint (off + c) = sint off + sint c" using sum [OF Some] by simp
      with Some st [THEN conjunct2, THEN conjunct1] show ?thesis
        by (simp split: sum.split)
    qed
  qed
  have nf: "rejected r NotFound \<longleftrightarrow>
          meth = ''PUT'' \<and> TrimSpace u \<noteq> [] \<and> TrimSpace x \<noteq> []
          \<and> (case ParseInt (TrimSpace x) of
                None \<Rightarrow> False
              | Some off \<Rightarrow> 0 \<le> sint off \<and> 0 < sint c
                             \<and> sint c \<le> sint (MaxChunkBytes (cfg s))
                             \<and> \<not> load_err env
                             \<and> files st (metaPath s (TrimSpace u)) = None)"
    using st [THEN conjunct2, THEN conjunct2, THEN conjunct2, THEN conjunct1]
    by (simp add: loadMeta_NotExist cong: option.case_cong)
  have frame: "rejected r BadRequest \<or> rejected r RequestEntityTooLarge \<or> rejected r NotFound
          \<or> rejected r Conflict \<or> rejected r MethodNotAllowed
          \<longrightarrow> files st' = files st \<and> lastSaved st' = lastSaved st"
  proof
    assume "rejected r BadRequest \<or> rejected r RequestEntityTooLarge \<or> rejected r NotFound
          \<or> rejected r Conflict \<or> rejected r MethodNotAllowed"
    with handleChunk_rejected_state [of J s env st meth u x c b] h
    have "st' = st \<or> st' = lock st (TrimSpace u)" by blast
    then show "files st' = files st \<and> lastSaved st' = lastSaved st"
      by (auto simp: lock_def)
  qed
  show ?thesis
    apply (intro conjI)
          apply (rule st [THEN conjunct1])
         apply (rule bad)
        apply (rule st [THEN conjunct2, THEN conjunct2, THEN conjunct1])
       apply (rule nf)
      apply (rule st [THEN conjunct2, THEN conjunct2, THEN conjunct2, THEN conjunct2, THEN conjunct1])
     apply (rule st [THEN conjunct2, THEN conjunct2, THEN conjunct2, THEN conjunct2, THEN conjunct2])
    apply (rule frame)
    done
qed

theorem chunk_rejections_witness:
  "ParseInt (TrimSpace ''8'') = Some 8 \<and> sint (8 :: int64) + sint (5 :: int64) < 2 ^ 63
   \<and> handleChunk exampleJSON exampleServer noFault emptyState ''PUT'' exampleID ''8'' 5 ''AAAAA''
       = (Error NotFound ''not found'', lock emptyState exampleID)
   \<and> rejected (Error NotFound ''not found'') NotFound
   \<and> \<not> rejected (Error NotFound ''not found'') BadRequest
   \<and> files (lock emptyState exampleID) = files emptyState
   \<and> lastSaved (lock emptyState exampleID) = lastSaved emptyState"
proof -
  have fit: "\<forall>off. ParseInt (TrimSpace ''8'') = Some off \<longrightarrow> sint off + sint (5 :: int64) < 2 ^ 63"
    by (simp add: ground)
  have h: "handleChunk exampleJSON exampleServer noFault emptyState ''PUT'' exampleID ''8'' 5 ''AAAAA''
       = (Error NotFound ''not found'', lock emptyState exampleID)"
    by (simp add: handleChunk_def Let_def loadMeta_def lock_def ground example_defs exampleID_ne)
  have l: "loadMeta exampleJSON exampleServer noFault emptyState exampleID = Inl NotExist"
    by (simp add: loadMeta_def ground example_defs)
  note t = chunk_rejections [OF fit h]
  from t [THEN conjunct2, THEN conjunct2, THEN conjunct2, THEN conjunct1]
  have c: "rejected (Error NotFound ''not found'') NotFound"
    by (simp add: ground example_defs exampleID_ne)
  from t [THEN conjunct2, THEN conjunct1]
  have b: "\<not> rejected (Error NotFound ''not found'') BadRequest"
    by (simp add: l ground noFault_simps exampleServer_simps exampleID_ne)
  from c t [THEN conjunct2, THEN conjunct2, THEN conjunct2, THEN conjunct2, THEN conjunct2, THEN conjunct2]
  have f: "files (lock emptyState exampleID) = files emptyState
           \<and> lastSaved (lock emptyState exampleID) = lastSaved emptyState" by blast
  have p: "ParseInt (TrimSpace ''8'') = Some 8" "sint (8 :: int64) + sint (5 :: int64) < 2 ^ 63"
    by (simp_all add: ground)
  show ?thesis using p h c b f by (intro conjI) simp_all
qed

end
